theory Spec2Isabelle
  imports Main "HOL-Library.Word"
begin

section \<open>Data model\<close>

text \<open>
  The application keeps all durable state in a hosted backend: one storage bucket
  (\<^verbatim>\<open>supabase.storage.from('files')\<close>) and one table (\<^verbatim>\<open>supabase.from('files')\<close>).
  A row of the table is the interface \<^verbatim>\<open>FileData\<close> of the download page, with the
  columns of the migration. Timestamps are instants in milliseconds since the epoch
  (the value of a JavaScript \<^verbatim>\<open>Date\<close>); the ISO text written by \<^verbatim>\<open>toISOString\<close> and
  read back by \<^verbatim>\<open>new Date(...)\<close> denotes the same instant. Strings are byte strings
  (their UTF-8 encoding), file contents are lists of bytes.
\<close>

type_synonym bytes = "8 word list"

record FileData =
  id_col :: string
  filename :: string
  file_path :: string
  file_size :: nat
  password_hash :: "string option"
  expires_at :: int

text \<open>The browser's \<^verbatim>\<open>File\<close>: a name and the bytes; \<^verbatim>\<open>file.size\<close> is their number.\<close>

record File =
  name :: string
  content :: bytes

definition size_of :: "File \<Rightarrow> nat" where
  "size_of f = length (content f)"

subsection \<open>The backend\<close>

text \<open>
  Every call the flows make on the backend is recorded, with whether it succeeded, so
  that the order of the calls of a flow can be stated.
\<close>

datatype call =
    StorageUpload string bool
  | StorageDownload string bool
  | StorageRemove "string list" bool
  | DbInsert FileData bool
  | DbSelectSingle string bool
  | DbSelectExpired int bool
  | DbDeleteById string bool
  | DbDeleteExpired int bool

record backend =
  bucket :: "(string \<times> bytes) list"
  table :: "FileData list"
  calls :: "call list"

text \<open>The client answers every call with \<^verbatim>\<open>{ data, error }\<close>; an error carries a message.\<close>

record 'a reply =
  data :: "'a option"
  error :: "string option"

definition record_call :: "call \<Rightarrow> backend \<Rightarrow> backend" where
  "record_call c w = w\<lparr>calls := calls w @ [c]\<rparr>"

definition rows_with_id :: "string \<Rightarrow> FileData list \<Rightarrow> FileData list" where
  "rows_with_id fid rows = filter (\<lambda>r. id_col r = fid) rows"

definition rows_without_id :: "string \<Rightarrow> FileData list \<Rightarrow> FileData list" where
  "rows_without_id fid rows = filter (\<lambda>r. id_col r \<noteq> fid) rows"

definition rows_expired_before :: "int \<Rightarrow> FileData list \<Rightarrow> FileData list" where
  "rows_expired_before t rows = filter (\<lambda>r. expires_at r < t) rows"

definition rows_not_expired_before :: "int \<Rightarrow> FileData list \<Rightarrow> FileData list" where
  "rows_not_expired_before t rows = filter (\<lambda>r. \<not> expires_at r < t) rows"

definition objects_without :: "string list \<Rightarrow> (string \<times> bytes) list \<Rightarrow> (string \<times> bytes) list" where
  "objects_without paths objs = filter (\<lambda>kv. fst kv \<notin> set paths) objs"

text \<open>
  The messages of the errors the services answer with on their own account. The first
  is the one of the table's \<^verbatim>\<open>.single()\<close>: the query must yield exactly one row,
  otherwise the reply carries this error and no data.
\<close>

definition single_row_error :: string where
  "single_row_error = ''JSON object requested, multiple (or no) rows returned''"

definition duplicate_key_error :: string where
  "duplicate_key_error = ''duplicate key value violates unique constraint \"files_pkey\"''"

definition resource_exists_error :: string where
  "resource_exists_error = ''The resource already exists''"

definition object_not_found_error :: string where
  "object_not_found_error = ''Object not found''"

text \<open>
  Each operation takes a fault: \<open>Some e\<close> when the call fails for a reason outside the
  stored state (network, permissions); the state is then left as it was.
\<close>

definition storage_upload ::
  "string option \<Rightarrow> string \<Rightarrow> bytes \<Rightarrow> backend \<Rightarrow> string option \<times> backend" where
  "storage_upload fault path b w =
     (case fault of
        Some e \<Rightarrow> (Some e, record_call (StorageUpload path False) w)
      | None \<Rightarrow>
          (case map_of (bucket w) path of
             Some old \<Rightarrow> (Some resource_exists_error, record_call (StorageUpload path False) w)
           | None \<Rightarrow>
               (None, record_call (StorageUpload path True)
                        (w\<lparr>bucket := bucket w @ [(path, b)]\<rparr>))))"

definition storage_download ::
  "string option \<Rightarrow> string \<Rightarrow> backend \<Rightarrow> bytes reply \<times> backend" where
  "storage_download fault path w =
     (case fault of
        Some e \<Rightarrow> (\<lparr>data = None, error = Some e\<rparr>, record_call (StorageDownload path False) w)
      | None \<Rightarrow>
          (case map_of (bucket w) path of
             None \<Rightarrow> (\<lparr>data = None, error = Some object_not_found_error\<rparr>,
                       record_call (StorageDownload path False) w)
           | Some b \<Rightarrow> (\<lparr>data = Some b, error = None\<rparr>,
                        record_call (StorageDownload path True) w)))"

definition storage_remove ::
  "string option \<Rightarrow> string list \<Rightarrow> backend \<Rightarrow> string option \<times> backend" where
  "storage_remove fault paths w =
     (case fault of
        Some e \<Rightarrow> (Some e, record_call (StorageRemove paths False) w)
      | None \<Rightarrow>
          (None, record_call (StorageRemove paths True)
                   (w\<lparr>bucket := objects_without paths (bucket w)\<rparr>)))"

definition db_insert ::
  "string option \<Rightarrow> FileData \<Rightarrow> backend \<Rightarrow> string option \<times> backend" where
  "db_insert fault row w =
     (case fault of
        Some e \<Rightarrow> (Some e, record_call (DbInsert row False) w)
      | None \<Rightarrow>
          (case rows_with_id (id_col row) (table w) of
             [] \<Rightarrow> (None, record_call (DbInsert row True) (w\<lparr>table := table w @ [row]\<rparr>))
           | r # rs \<Rightarrow> (Some duplicate_key_error, record_call (DbInsert row False) w)))"

definition db_select_single ::
  "string option \<Rightarrow> string \<Rightarrow> backend \<Rightarrow> FileData reply \<times> backend" where
  "db_select_single fault fid w =
     (case fault of
        Some e \<Rightarrow> (\<lparr>data = None, error = Some e\<rparr>, record_call (DbSelectSingle fid False) w)
      | None \<Rightarrow>
          (case rows_with_id fid (table w) of
             [r] \<Rightarrow> (\<lparr>data = Some r, error = None\<rparr>, record_call (DbSelectSingle fid True) w)
           | rs \<Rightarrow> (\<lparr>data = None, error = Some single_row_error\<rparr>,
                     record_call (DbSelectSingle fid False) w)))"

definition db_select_expired ::
  "string option \<Rightarrow> int \<Rightarrow> backend \<Rightarrow> FileData list reply \<times> backend" where
  "db_select_expired fault t w =
     (case fault of
        Some e \<Rightarrow> (\<lparr>data = None, error = Some e\<rparr>, record_call (DbSelectExpired t False) w)
      | None \<Rightarrow> (\<lparr>data = Some (rows_expired_before t (table w)), error = None\<rparr>,
                  record_call (DbSelectExpired t True) w))"

definition db_delete_by_id ::
  "string option \<Rightarrow> string \<Rightarrow> backend \<Rightarrow> string option \<times> backend" where
  "db_delete_by_id fault fid w =
     (case fault of
        Some e \<Rightarrow> (Some e, record_call (DbDeleteById fid False) w)
      | None \<Rightarrow>
          (None, record_call (DbDeleteById fid True)
                   (w\<lparr>table := rows_without_id fid (table w)\<rparr>)))"

definition db_delete_expired ::
  "string option \<Rightarrow> int \<Rightarrow> backend \<Rightarrow> string option \<times> backend" where
  "db_delete_expired fault t w =
     (case fault of
        Some e \<Rightarrow> (Some e, record_call (DbDeleteExpired t False) w)
      | None \<Rightarrow>
          (None, record_call (DbDeleteExpired t True)
                   (w\<lparr>table := rows_not_expired_before t (table w)\<rparr>)))"

section \<open>Password hashing\<close>

text \<open>
  \<^verbatim>\<open>hashPassword\<close> is the same function in the upload and the download component: the
  UTF-8 bytes of the password, the platform's SHA-256 (\<^verbatim>\<open>crypto.subtle.digest\<close>, the
  parameter \<open>digest\<close>), and each byte of the digest as two lowercase hex digits
  (\<^verbatim>\<open>b.toString(16).padStart(2, '0')\<close>).
\<close>

definition hex_digit :: "nat \<Rightarrow> char" where
  "hex_digit n = ''0123456789abcdef'' ! (n mod 16)"

definition toString16 :: "8 word \<Rightarrow> string" where
  "toString16 b =
     (if unat b < 16 then [hex_digit (unat b)]
      else [hex_digit (unat b div 16), hex_digit (unat b mod 16)])"

definition padStart2 :: "string \<Rightarrow> string" where
  "padStart2 s = replicate (2 - length s) (CHR ''0'') @ s"

definition encode :: "string \<Rightarrow> bytes" where
  "encode s = map of_char s"

definition hashPassword :: "(bytes \<Rightarrow> bytes) \<Rightarrow> string \<Rightarrow> string" where
  "hashPassword digest password =
     concat (map (\<lambda>b. padStart2 (toString16 b)) (digest (encode password)))"

section \<open>Dates\<close>

text \<open>
  \<^verbatim>\<open>getMinutes\<close> and \<^verbatim>\<open>setMinutes\<close> of a JavaScript \<^verbatim>\<open>Date\<close> work on the fields of
  the local wall-clock time, as the language standard defines them. The time zone of
  the browser is a parameter: \<open>offset_at z t\<close> is the offset of local time from UTC at
  the instant \<open>t\<close>, \<open>offset_of_local z t\<close> the offset by which the local time value \<open>t\<close>
  is read back as an instant (where a local time is repeated, the offset before the
  transition). Instants stay within the range of a \<^verbatim>\<open>Date\<close>.
\<close>

record zone =
  offset_at :: "int \<Rightarrow> int"
  offset_of_local :: "int \<Rightarrow> int"

definition LocalTime :: "zone \<Rightarrow> int \<Rightarrow> int" where
  "LocalTime z t = t + offset_at z t"

definition UTC :: "zone \<Rightarrow> int \<Rightarrow> int" where
  "UTC z t = t - offset_of_local z t"

definition Day :: "int \<Rightarrow> int" where
  "Day t = t div 86400000"

definition HourFromTime :: "int \<Rightarrow> int" where
  "HourFromTime t = (t div 3600000) mod 24"

definition MinFromTime :: "int \<Rightarrow> int" where
  "MinFromTime t = (t div 60000) mod 60"

definition SecFromTime :: "int \<Rightarrow> int" where
  "SecFromTime t = (t div 1000) mod 60"

definition msFromTime :: "int \<Rightarrow> int" where
  "msFromTime t = t mod 1000"

definition MakeTime :: "int \<Rightarrow> int \<Rightarrow> int \<Rightarrow> int \<Rightarrow> int" where
  "MakeTime hour minute sec ms = hour * 3600000 + minute * 60000 + sec * 1000 + ms"

definition MakeDate :: "int \<Rightarrow> int \<Rightarrow> int" where
  "MakeDate day time = day * 86400000 + time"

definition getMinutes :: "zone \<Rightarrow> int \<Rightarrow> int" where
  "getMinutes z t = MinFromTime (LocalTime z t)"

definition setMinutes :: "zone \<Rightarrow> int \<Rightarrow> int \<Rightarrow> int" where
  "setMinutes z t m =
     (let local = LocalTime z t
      in UTC z (MakeDate (Day local)
                  (MakeTime (HourFromTime local) m (SecFromTime local) (msFromTime local))))"

section \<open>Upload\<close>

text \<open>The expiration select offers the values 1, 2, 5 and 10; \<^verbatim>\<open>parseInt\<close> reads them.\<close>

datatype expiration = Minutes1 | Minutes2 | Minutes5 | Minutes10

fun parseInt :: "expiration \<Rightarrow> int" where
  "parseInt Minutes1 = 1"
| "parseInt Minutes2 = 2"
| "parseInt Minutes5 = 5"
| "parseInt Minutes10 = 10"

datatype upload_outcome =
    SelectFileError
  | UploadFailed string
  | Uploaded string

record upload_faults =
  uf_upload :: "string option"
  uf_insert :: "string option"

text \<open>
  \<^verbatim>\<open>handleUpload\<close>. The inputs beside the component state (file, password, expiration)
  are the identifier \<^verbatim>\<open>crypto.randomUUID()\<close> returns, the instant \<^verbatim>\<open>new Date()\<close>
  returns and the page's origin. The outcome is the toast shown and, on success, the
  share link. \<open>upload_path\<close> is the storage key \<^verbatim>\<open>`uploads/${fileId}/${file.name}`\<close>,
  \<open>passwordHash\<close> the line \<^verbatim>\<open>password ? await hashPassword(password) : null\<close>,
  \<open>upload_record\<close> the object given to \<^verbatim>\<open>insert\<close>. The expiry is
  \<^verbatim>\<open>expiresAt.setMinutes(expiresAt.getMinutes() + parseInt(expirationMinutes))\<close> on
  \<^verbatim>\<open>new Date()\<close>, in the time zone \<open>z\<close> of the browser.
\<close>

definition passwordHash :: "(bytes \<Rightarrow> bytes) \<Rightarrow> string \<Rightarrow> string option" where
  "passwordHash digest password =
     (if password \<noteq> [] then Some (hashPassword digest password) else None)"

definition upload_path :: "string \<Rightarrow> File \<Rightarrow> string" where
  "upload_path fileId f = ''uploads/'' @ fileId @ ''/'' @ name f"

definition upload_record ::
  "(bytes \<Rightarrow> bytes) \<Rightarrow> zone \<Rightarrow> File \<Rightarrow> string \<Rightarrow> expiration \<Rightarrow> string \<Rightarrow> int \<Rightarrow>
     FileData" where
  "upload_record digest z f password expirationMinutes fileId now =
     \<lparr>id_col = fileId, filename = name f, file_path = upload_path fileId f,
      file_size = size_of f, password_hash = passwordHash digest password,
      expires_at = setMinutes z now (getMinutes z now + parseInt expirationMinutes)\<rparr>"

definition handleUpload ::
  "(bytes \<Rightarrow> bytes) \<Rightarrow> zone \<Rightarrow> upload_faults \<Rightarrow> string \<Rightarrow> File option \<Rightarrow> string \<Rightarrow> expiration \<Rightarrow>
     string \<Rightarrow> int \<Rightarrow> backend \<Rightarrow> upload_outcome \<times> backend" where
  "handleUpload digest z flt origin file password expirationMinutes fileId now w =
     (case file of
        None \<Rightarrow> (SelectFileError, w)
      | Some f \<Rightarrow>
          (case storage_upload (uf_upload flt) (upload_path fileId f) (content f) w of
             (Some uploadError, w1) \<Rightarrow> (UploadFailed uploadError, w1)
           | (None, w1) \<Rightarrow>
               (case db_insert (uf_insert flt)
                       (upload_record digest z f password expirationMinutes fileId now) w1 of
                  (Some dbError, w2) \<Rightarrow> (UploadFailed dbError, w2)
                | (None, w2) \<Rightarrow> (Uploaded (origin @ ''/download/'' @ fileId), w2))))"

section \<open>Download\<close>

datatype load_outcome =
    LoadError string
  | Loaded FileData

record load_faults =
  lf_select :: "string option"
  lf_remove :: "string option"
  lf_delete :: "string option"

text \<open>
  \<^verbatim>\<open>loadFileData\<close>: the outcome is the component state it leaves, either the error text
  or the loaded record. The errors of the two deleting calls are not looked at.
\<close>

definition loadFileData ::
  "load_faults \<Rightarrow> string \<Rightarrow> int \<Rightarrow> backend \<Rightarrow> load_outcome \<times> backend" where
  "loadFileData flt fileId now w =
     (case db_select_single (lf_select flt) fileId w of
        (r, w1) \<Rightarrow>
          (case error r of
             Some e \<Rightarrow> (LoadError e, w1)
           | None \<Rightarrow>
               (case data r of
                  None \<Rightarrow> (LoadError ''File not found'', w1)
                | Some d \<Rightarrow>
                    if expires_at d < now then
                      (case storage_remove (lf_remove flt) [file_path d] w1 of
                         (e1, w2) \<Rightarrow>
                           (case db_delete_by_id (lf_delete flt) fileId w2 of
                              (e2, w3) \<Rightarrow> (LoadError ''File has expired and been deleted'', w3)))
                    else (Loaded d, w1))))"

text \<open>A string is truthy when it is neither null nor empty.\<close>

fun truthy :: "string option \<Rightarrow> bool" where
  "truthy None = False"
| "truthy (Some s) = (s \<noteq> [])"

text \<open>The password field of the page is rendered only for a truthy \<^verbatim>\<open>password_hash\<close>.\<close>

definition password_field_shown :: "FileData option \<Rightarrow> bool" where
  "password_field_shown fileData =
     (case fileData of None \<Rightarrow> False | Some fd \<Rightarrow> truthy (password_hash fd))"

datatype download_outcome =
    NothingLoaded
  | PasswordRequired
  | IncorrectPassword
  | DownloadFailed string
  | Saved string bytes

text \<open>
  \<^verbatim>\<open>handleDownload\<close>: \<open>Saved n b\<close> is the browser saving the bytes \<open>b\<close> under the name
  \<open>n\<close> (the anchor's \<^verbatim>\<open>download\<close> attribute). \<open>download_and_save\<close> is its
  \<^verbatim>\<open>try\<close> block; a reply with neither error nor data, which the storage never gives,
  would fail there with no message of the storage.
\<close>

definition download_and_save ::
  "string option \<Rightarrow> FileData \<Rightarrow> backend \<Rightarrow> download_outcome \<times> backend" where
  "download_and_save fault fd w =
     (case storage_download fault (file_path fd) w of
        (r, w1) \<Rightarrow>
          (case error r of
             Some e \<Rightarrow> (DownloadFailed e, w1)
           | None \<Rightarrow>
               (case data r of
                  Some b \<Rightarrow> (Saved (filename fd) b, w1)
                | None \<Rightarrow> (DownloadFailed [], w1))))"

definition handleDownload ::
  "(bytes \<Rightarrow> bytes) \<Rightarrow> string option \<Rightarrow> FileData option \<Rightarrow> string \<Rightarrow> backend \<Rightarrow>
     download_outcome \<times> backend" where
  "handleDownload digest fault fileData password w =
     (case fileData of
        None \<Rightarrow> (NothingLoaded, w)
      | Some fd \<Rightarrow>
          if truthy (password_hash fd) then
            if password = [] then (PasswordRequired, w)
            else if Some (hashPassword digest password) \<noteq> password_hash fd
            then (IncorrectPassword, w)
            else download_and_save fault fd w
          else download_and_save fault fd w)"

section \<open>Expiry sweep\<close>

datatype sweep_body =
    PlainOk
  | DeletedCount nat
  | NoExpiredFiles
  | ErrorMessage string

record response =
  status :: nat
  body :: sweep_body

record sweep_faults =
  sf_client :: "string option"
  sf_select :: "string option"
  sf_remove :: "string option"
  sf_delete :: "string option"

text \<open>
  The handler of the scheduled function. \<open>DeletedCount n\<close> is the body
  \<^verbatim>\<open>{ message: `Deleted n expired files`, deletedCount: n }\<close>, \<open>NoExpiredFiles\<close> the body
  \<^verbatim>\<open>{ message: 'No expired files found' }\<close>, \<open>ErrorMessage e\<close> the body \<^verbatim>\<open>{ error: e }\<close>.
  \<open>now1\<close> and \<open>now2\<close> are the two instants \<^verbatim>\<open>new Date()\<close> returns, for the select and
  for the delete. The second component of the result is what was written to the console.
  \<open>sf_client\<close> is the failure of reading the environment and creating the client,
  \<open>sweep_console\<close> the \<^verbatim>\<open>console.error\<close> of a failed storage removal.
\<close>

definition sweep_console :: "string option \<Rightarrow> string list" where
  "sweep_console storageError =
     (case storageError of Some e \<Rightarrow> [''Storage deletion error: '' @ e] | None \<Rightarrow> [])"

definition sweep ::
  "sweep_faults \<Rightarrow> string \<Rightarrow> int \<Rightarrow> int \<Rightarrow> backend \<Rightarrow> (response \<times> string list) \<times> backend" where
  "sweep flt method now1 now2 w =
     (if method = ''OPTIONS'' then ((\<lparr>status = 200, body = PlainOk\<rparr>, []), w)
      else
        (case sf_client flt of
           Some e \<Rightarrow> ((\<lparr>status = 400, body = ErrorMessage e\<rparr>, []), w)
         | None \<Rightarrow>
             (case db_select_expired (sf_select flt) now1 w of
                (r, w1) \<Rightarrow>
                  (case error r of
                     Some fetchError \<Rightarrow> ((\<lparr>status = 400, body = ErrorMessage fetchError\<rparr>, []), w1)
                   | None \<Rightarrow>
                       (case data r of
                          Some (x # xs) \<Rightarrow>
                            (let expiredFiles = x # xs;
                                 filePaths = map file_path expiredFiles
                             in case storage_remove (sf_remove flt) filePaths w1 of
                                  (storageError, w2) \<Rightarrow>
                                    (let console = sweep_console storageError
                                     in case db_delete_expired (sf_delete flt) now2 w2 of
                                          (Some dbError, w3) \<Rightarrow>
                                            ((\<lparr>status = 400, body = ErrorMessage dbError\<rparr>, console), w3)
                                        | (None, w3) \<Rightarrow>
                                            ((\<lparr>status = 200,
                                               body = DeletedCount (length expiredFiles)\<rparr>,
                                              console), w3)))
                        | other \<Rightarrow> ((\<lparr>status = 200, body = NoExpiredFiles\<rparr>, []), w1))))))"

section \<open>Example data\<close>

text \<open>
  The scenario used to evaluate the flows on concrete inputs: the file
  \<^verbatim>\<open>report.pdf\<close> of ten bytes, uploaded at instant 0 with password \<^verbatim>\<open>abc\<close> and an
  expiry of one minute under the identifier \<^verbatim>\<open>id-1\<close>. The theorems hold for every
  digest function; \<open>sample_digest\<close> is a small one standing in for SHA-256 where a
  concrete one is needed.
\<close>

definition sample_digest :: "bytes \<Rightarrow> bytes" where
  "sample_digest bs = take 4 (bs @ [0, 0, 0, 0])"

definition utc_zone :: zone where
  "utc_zone = \<lparr>offset_at = (\<lambda>t. 0), offset_of_local = (\<lambda>t. 0)\<rparr>"

definition report_pdf :: File where
  "report_pdf = \<lparr>name = ''report.pdf'', content = [1, 2, 3, 4, 5, 6, 7, 8, 9, 10]\<rparr>"

definition empty_backend :: backend where
  "empty_backend = \<lparr>bucket = [], table = [], calls = []\<rparr>"

definition no_upload_faults :: upload_faults where
  "no_upload_faults = \<lparr>uf_upload = None, uf_insert = None\<rparr>"

definition no_load_faults :: load_faults where
  "no_load_faults = \<lparr>lf_select = None, lf_remove = None, lf_delete = None\<rparr>"

definition no_sweep_faults :: sweep_faults where
  "no_sweep_faults = \<lparr>sf_client = None, sf_select = None, sf_remove = None, sf_delete = None\<rparr>"

definition report_row :: FileData where
  "report_row =
     \<lparr>id_col = ''id-1'', filename = ''report.pdf'', file_path = ''uploads/id-1/report.pdf'',
      file_size = 10, password_hash = Some ''61626300'', expires_at = 60000\<rparr>"

definition after_upload :: backend where
  "after_upload =
     \<lparr>bucket = [(''uploads/id-1/report.pdf'', [1, 2, 3, 4, 5, 6, 7, 8, 9, 10])],
      table = [report_row],
      calls = [StorageUpload ''uploads/id-1/report.pdf'' True, DbInsert report_row True]\<rparr>"

text \<open>
  A second file, \<^verbatim>\<open>notes.txt\<close>, uploaded half a second later with no password under
  the identifier \<^verbatim>\<open>id-2\<close>; a sweep whose storage removal fails; an upload whose
  storage put fails.
\<close>

definition notes_txt :: File where
  "notes_txt = \<lparr>name = ''notes.txt'', content = [7, 7]\<rparr>"

definition notes_row :: FileData where
  "notes_row =
     \<lparr>id_col = ''id-2'', filename = ''notes.txt'', file_path = ''uploads/id-2/notes.txt'',
      file_size = 2, password_hash = None, expires_at = 60500\<rparr>"

definition two_files :: backend where
  "two_files =
     \<lparr>bucket = [(''uploads/id-1/report.pdf'', [1, 2, 3, 4, 5, 6, 7, 8, 9, 10]),
                (''uploads/id-2/notes.txt'', [7, 7])],
      table = [report_row, notes_row],
      calls = [StorageUpload ''uploads/id-1/report.pdf'' True, DbInsert report_row True,
               StorageUpload ''uploads/id-2/notes.txt'' True, DbInsert notes_row True]\<rparr>"

definition storage_down :: sweep_faults where
  "storage_down =
     \<lparr>sf_client = None, sf_select = None, sf_remove = Some ''storage unavailable'',
      sf_delete = None\<rparr>"

text \<open>
  A zone around a return from summer time: at the instant 1793512800000 (2026-11-01
  06:00 UTC) the offset goes from four to five hours behind UTC, and the local hour
  from 01:00 to 02:00 occurs twice.
\<close>

definition fall_back_zone :: zone where
  "fall_back_zone =
     \<lparr>offset_at = (\<lambda>t. if t < 1793512800000 then - 14400000 else - 18000000),
      offset_of_local = (\<lambda>t. if t < 1793498400000 then - 14400000 else - 18000000)\<rparr>"

definition upload_put_fails :: upload_faults where
  "upload_put_fails = \<lparr>uf_upload = Some ''network error'', uf_insert = None\<rparr>"


section \<open>Facts about dates\<close>

lemma recompose_fields:
  fixes t :: int
  assumes "t = 1000 * q1 + r1" "q1 = 60 * q2 + r2" "q2 = 60 * q3 + r3" "q3 = 24 * q4 + r4"
  shows "q4 * 86400000 + (r4 * 3600000 + (r3 + n) * 60000 + r2 * 1000 + r1) = t + n * 60000"
  using assms by (simp add: algebra_simps)

lemma MakeDate_fields:
  "MakeDate (Day t)
     (MakeTime (HourFromTime t) (MinFromTime t + n) (SecFromTime t) (msFromTime t))
   = t + n * 60000"
proof -
  have a: "t = 1000 * (t div 1000) + t mod 1000"
    by (rule mult_div_mod_eq [symmetric])
  have e: "t div 1000 div 60 = t div 60000" "t div 60000 div 60 = t div 3600000"
    "t div 3600000 div 24 = t div 86400000"
    by (simp_all add: div_mult2_eq [symmetric])
  have b: "t div 1000 = 60 * (t div 60000) + t div 1000 mod 60"
    using mult_div_mod_eq [of 60 "t div 1000", symmetric] by (simp only: e)
  have c: "t div 60000 = 60 * (t div 3600000) + t div 60000 mod 60"
    using mult_div_mod_eq [of 60 "t div 60000", symmetric] by (simp only: e)
  have d: "t div 3600000 = 24 * (t div 86400000) + t div 3600000 mod 24"
    using mult_div_mod_eq [of 24 "t div 3600000", symmetric] by (simp only: e)
  show ?thesis
    unfolding MakeDate_def MakeTime_def Day_def HourFromTime_def MinFromTime_def
      SecFromTime_def msFromTime_def
    by (rule recompose_fields [OF a b c d])
qed

text \<open>
  Setting the minutes to \<open>n\<close> more than they are moves the local time by \<open>n\<close> minutes;
  the instant is that local time read back.
\<close>

lemma setMinutes_getMinutes:
  "setMinutes z t (getMinutes z t + n) = UTC z (LocalTime z t + n * 60000)"
  by (simp add: setMinutes_def getMinutes_def MakeDate_fields)

text \<open>Where the offset is the same throughout, the instant moves by \<open>n\<close> minutes.\<close>

lemma setMinutes_constant_offset:
  assumes "\<And>t. offset_at z t = c" "\<And>t. offset_of_local z t = c"
  shows "setMinutes z t (getMinutes z t + n) = t + n * 60000"
  by (simp add: setMinutes_getMinutes UTC_def LocalTime_def assms)

lemma setMinutes_utc: "setMinutes utc_zone t (getMinutes utc_zone t + n) = t + n * 60000"
  by (rule setMinutes_constant_offset [of _ 0]) (simp_all add: utc_zone_def)

text \<open>
  In the repeated hour it does not: ten minutes added at 06:30 UTC (01:30 local, the
  second time) give 01:40 local, read back as the first 01:40, which is 05:40 UTC.
\<close>

lemma setMinutes_fall_back:
  "setMinutes fall_back_zone 1793514600000 (getMinutes fall_back_zone 1793514600000 + 10)
     = 1793511600000"
  by (simp add: setMinutes_getMinutes UTC_def LocalTime_def fall_back_zone_def)

section \<open>Facts about the backend operations\<close>

lemma map_of_objects_without:
  "p \<in> set paths \<Longrightarrow> map_of (objects_without paths objs) p = None"
  by (induction objs) (auto simp: objects_without_def)

lemma rows_with_id_without: "rows_with_id fid (rows_without_id fid rows) = []"
  by (induction rows) (auto simp: rows_with_id_def rows_without_id_def)

lemma map_of_append_new:
  "map_of objs p = None \<Longrightarrow> map_of (objs @ [(p, b)]) p = Some b"
  by (simp add: map_add_def)

lemma rows_with_id_append_new:
  "rows_with_id (id_col row) rows = [] \<Longrightarrow> rows_with_id (id_col row) (rows @ [row]) = [row]"
  by (simp add: rows_with_id_def)

lemma sample_hash_abc: "hashPassword sample_digest ''abc'' = ''61626300''"
  by (simp add: hashPassword_def sample_digest_def encode_def padStart2_def toString16_def
      hex_digit_def)

lemma sample_hash_xyz: "hashPassword sample_digest ''xyz'' = ''78797a00''"
  by (simp add: hashPassword_def sample_digest_def encode_def padStart2_def toString16_def
      hex_digit_def)

lemma scenario_upload:
  "handleUpload sample_digest utc_zone no_upload_faults ''https://share.example'' (Some report_pdf)
     ''abc'' Minutes1 ''id-1'' 0 empty_backend
   = (Uploaded ''https://share.example/download/id-1'', after_upload)"
  by (simp add: handleUpload_def storage_upload_def db_insert_def record_call_def
      upload_record_def upload_path_def passwordHash_def sample_hash_abc size_of_def
      rows_with_id_def report_pdf_def empty_backend_def no_upload_faults_def
      after_upload_def report_row_def setMinutes_utc)

lemma scenario_upload_notes:
  "handleUpload sample_digest utc_zone no_upload_faults ''https://share.example'' (Some notes_txt)
     [] Minutes1 ''id-2'' 500 after_upload
   = (Uploaded ''https://share.example/download/id-2'', two_files)"
  by (simp add: handleUpload_def storage_upload_def db_insert_def record_call_def
      upload_record_def upload_path_def passwordHash_def size_of_def
      rows_with_id_def notes_txt_def no_upload_faults_def
      after_upload_def report_row_def two_files_def notes_row_def setMinutes_utc)

section \<open>Facts about the upload\<close>

lemma upload_record_simps:
  "id_col (upload_record digest z f P ex fileId t0) = fileId"
  "filename (upload_record digest z f P ex fileId t0) = name f"
  "file_path (upload_record digest z f P ex fileId t0) = upload_path fileId f"
  "password_hash (upload_record digest z f P ex fileId t0) = passwordHash digest P"
  "expires_at (upload_record digest z f P ex fileId t0)
     = setMinutes z t0 (getMinutes z t0 + parseInt ex)"
  by (simp_all add: upload_record_def)

lemma handleUpload_Uploaded:
  assumes "handleUpload digest z flt origin (Some f) P ex fileId t0 w = (Uploaded link, w1)"
  shows "map_of (bucket w) (upload_path fileId f) = None"
    and "rows_with_id fileId (table w) = []"
    and "bucket w1 = bucket w @ [(upload_path fileId f, content f)]"
    and "table w1 = table w @ [upload_record digest z f P ex fileId t0]"
    and "link = origin @ ''/download/'' @ fileId"
  using assms
  by (auto simp: handleUpload_def storage_upload_def db_insert_def record_call_def
      upload_record_def split: option.splits list.splits prod.splits)

lemma stored_after_upload:
  assumes "handleUpload digest z flt origin (Some f) P ex fileId t0 w = (Uploaded link, w1)"
  shows "rows_with_id fileId (table w1) = [upload_record digest z f P ex fileId t0]"
    and "map_of (bucket w1) (upload_path fileId f) = Some (content f)"
proof -
  note u = handleUpload_Uploaded [OF assms]
  show "rows_with_id fileId (table w1) = [upload_record digest z f P ex fileId t0]"
    using u(2) rows_with_id_append_new [of "upload_record digest z f P ex fileId t0" "table w"]
    by (simp add: u(4) upload_record_simps)
  show "map_of (bucket w1) (upload_path fileId f) = Some (content f)"
    using map_of_append_new [OF u(1)] by (simp only: u(3))
qed

text \<open>With no fault, a fresh identifier and a free storage key, the upload succeeds.\<close>

lemma handleUpload_succeeds:
  assumes "uf_upload flt = None" "uf_insert flt = None"
      and "map_of (bucket w) (upload_path fileId f) = None"
      and "rows_with_id fileId (table w) = []"
  shows "fst (handleUpload digest z flt origin (Some f) P ex fileId t0 w)
           = Uploaded (origin @ ''/download/'' @ fileId)"
  using assms
  by (simp add: handleUpload_def storage_upload_def db_insert_def record_call_def
      upload_record_def)

text \<open>
  An upload in the repeated hour stores an expiry that precedes the upload itself, and
  a download right after it finds the record expired.
\<close>

lemma fall_back_upload_expiry:
  "expires_at (upload_record sample_digest fall_back_zone report_pdf ''abc'' Minutes10 ''id-1''
                 1793514600000)
     = 1793511600000"
  by (simp add: upload_record_simps setMinutes_fall_back)

lemma fall_back_immediate_download_expired:
  "fst (loadFileData no_load_faults ''id-1'' 1793514600000
          (snd (handleUpload sample_digest fall_back_zone no_upload_faults
                  ''https://share.example'' (Some report_pdf) ''abc'' Minutes10 ''id-1''
                  1793514600000 empty_backend)))
     = LoadError ''File has expired and been deleted''"
  by (simp add: handleUpload_def storage_upload_def db_insert_def record_call_def
      upload_record_def upload_path_def size_of_def rows_with_id_def report_pdf_def
      empty_backend_def no_upload_faults_def setMinutes_fall_back loadFileData_def
      db_select_single_def storage_remove_def db_delete_by_id_def no_load_faults_def)

section \<open>Facts about the download\<close>

lemma loadFileData_fresh:
  assumes "rows_with_id fid (table w) = [r]" "\<not> expires_at r < now" "lf_select flt = None"
  shows "loadFileData flt fid now w = (Loaded r, record_call (DbSelectSingle fid True) w)"
  using assms by (simp add: loadFileData_def db_select_single_def)

lemma download_and_save_present:
  assumes "map_of (bucket w) (file_path fd) = Some b"
  shows "download_and_save None fd w
           = (Saved (filename fd) b, record_call (StorageDownload (file_path fd) True) w)"
  using assms by (simp add: download_and_save_def storage_download_def)

text \<open>
  The branch \<^verbatim>\<open>setError('File not found')\<close> is taken only for a reply with neither
  error nor data. \<^verbatim>\<open>.single()\<close> answers a query of no row with an error, so the text
  can only appear when it is the message of the error itself.
\<close>

lemma loadFileData_File_not_found:
  "fst (loadFileData flt fid now w) = LoadError ''File not found''
     \<Longrightarrow> lf_select flt = Some ''File not found''"
  by (auto simp: loadFileData_def db_select_single_def single_row_error_def
      split: option.splits list.splits prod.splits if_splits)

lemma download_and_save_calls:
  "calls (snd (download_and_save fault fd w))
     = calls w @ [StorageDownload (file_path fd)
                    (fault = None \<and> map_of (bucket w) (file_path fd) \<noteq> None)]"
  by (auto simp: download_and_save_def storage_download_def record_call_def
      split: option.splits)

text \<open>
  Every byte of the digest gives two hex digits: the 32 bytes of SHA-256 give the 64
  characters of a stored \<open>password_hash\<close>.
\<close>

lemma padStart2_toString16_length: "length (padStart2 (toString16 b)) = 2"
  by (simp add: padStart2_def toString16_def)

lemma hashPassword_length:
  "length (hashPassword digest P) = 2 * length (digest (encode P))"
proof -
  have "length (concat (map (\<lambda>b. padStart2 (toString16 b)) bs)) = 2 * length bs" for bs
    by (induction bs) (simp_all add: padStart2_toString16_length)
  then show ?thesis by (simp add: hashPassword_def)
qed

section \<open>Facts about the sweep\<close>

lemma sweep_nothing_expired:
  assumes "method \<noteq> ''OPTIONS''" "sf_client flt = None" "sf_select flt = None"
      and "rows_expired_before now1 (table w) = []"
  shows "sweep flt method now1 now2 w
           = ((\<lparr>status = 200, body = NoExpiredFiles\<rparr>, []),
              record_call (DbSelectExpired now1 True) w)"
  using assms by (simp add: sweep_def db_select_expired_def)

lemma sweep_some_expired:
  assumes "method \<noteq> ''OPTIONS''" "sf_client flt = None" "sf_select flt = None"
      and "rows_expired_before now1 (table w) \<noteq> []"
  shows "sweep flt method now1 now2 w
           = (case storage_remove (sf_remove flt)
                     (map file_path (rows_expired_before now1 (table w)))
                     (record_call (DbSelectExpired now1 True) w) of
                (storageError, w2) \<Rightarrow>
                  (case db_delete_expired (sf_delete flt) now2 w2 of
                     (Some dbError, w3) \<Rightarrow>
                       ((\<lparr>status = 400, body = ErrorMessage dbError\<rparr>,
                         sweep_console storageError), w3)
                   | (None, w3) \<Rightarrow>
                       ((\<lparr>status = 200,
                          body = DeletedCount (length (rows_expired_before now1 (table w)))\<rparr>,
                         sweep_console storageError), w3)))"
proof -
  obtain x xs where ex: "rows_expired_before now1 (table w) = x # xs"
    using assms(4) by (cases "rows_expired_before now1 (table w)") auto
  show ?thesis
    using assms(1-3)
    by (simp add: sweep_def db_select_expired_def ex sweep_console_def Let_def
        split: prod.splits option.splits)
qed

lemma storage_remove_effect:
  "storage_remove fault paths w
     = (fault, record_call (StorageRemove paths (fault = None))
                 (w\<lparr>bucket := (case fault of Some e \<Rightarrow> bucket w
                                 | None \<Rightarrow> objects_without paths (bucket w))\<rparr>))"
  by (cases fault) (simp_all add: storage_remove_def)

lemma db_delete_expired_effect:
  "db_delete_expired fault t w
     = (fault, record_call (DbDeleteExpired t (fault = None))
                 (w\<lparr>table := (case fault of Some e \<Rightarrow> table w
                                | None \<Rightarrow> rows_not_expired_before t (table w))\<rparr>))"
  by (cases fault) (simp_all add: db_delete_expired_def)

lemma expired_before_not_expired:
  "now1 \<le> now2 \<Longrightarrow> rows_expired_before now1 (rows_not_expired_before now2 rows) = []"
  by (induction rows) (auto simp: rows_expired_before_def rows_not_expired_before_def)

lemma not_expired_later:
  assumes "\<forall>r \<in> set rows. \<not> (now1 \<le> expires_at r \<and> expires_at r < now3)"
      and "now1 \<le> now2"
  shows "rows_expired_before now3 (rows_not_expired_before now2 rows) = []"
  using assms
  by (auto simp: rows_expired_before_def rows_not_expired_before_def filter_empty_conv)

lemma none_expired_later:
  assumes "\<forall>r \<in> set rows. \<not> (now1 \<le> expires_at r \<and> expires_at r < now3)"
      and "rows_expired_before now1 rows = []"
  shows "rows_expired_before now3 rows = []"
  using assms
  by (fastforce simp: rows_expired_before_def filter_empty_conv)

lemma length_not_expired:
  "length (rows_not_expired_before t rows) + length (rows_expired_before t rows) = length rows"
  by (induction rows) (simp_all add: rows_not_expired_before_def rows_expired_before_def)

lemma two_files_expired_61000:
  "rows_expired_before 61000 (table two_files) = [report_row, notes_row]"
  by (simp add: rows_expired_before_def two_files_def report_row_def notes_row_def)

section \<open>The claims\<close>

subsection \<open>Expired access\<close>

text \<open>
  C1, as the code has it. For every stored record (the only row of its identifier),
  if at download-lookup time the current time is strictly greater than \<open>expires_at\<close>,
  the download flow, its backend calls succeeding, fails with the expired message and
  deletes both the storage object and the metadata record: afterwards the key of the
  object is absent from the bucket, no row of the identifier is left, and a follow-up
  lookup of the same identifier fails.
\<close>

theorem expired_download_deletes_and_fails:
  assumes found: "rows_with_id fid (table w) = [r]"
      and expired: "expires_at r < now"
      and ok: "lf_select flt = None" "lf_remove flt = None" "lf_delete flt = None"
  shows "fst (loadFileData flt fid now w) = LoadError ''File has expired and been deleted''
       \<and> map_of (bucket (snd (loadFileData flt fid now w))) (file_path r) = None
       \<and> rows_with_id fid (table (snd (loadFileData flt fid now w))) = []
       \<and> (\<exists>e. fst (loadFileData flt' fid now' (snd (loadFileData flt fid now w))) = LoadError e)"
proof -
  let ?w3 = "record_call (DbDeleteById fid True)
      ((record_call (StorageRemove [file_path r] True)
         ((record_call (DbSelectSingle fid True) w)
            \<lparr>bucket := objects_without [file_path r] (bucket w)\<rparr>))
        \<lparr>table := rows_without_id fid (table w)\<rparr>)"
  have run: "loadFileData flt fid now w = (LoadError ''File has expired and been deleted'', ?w3)"
    using found expired ok
    by (simp add: loadFileData_def db_select_single_def storage_remove_def
        db_delete_by_id_def record_call_def)
  have gone: "rows_with_id fid (table ?w3) = []"
    by (simp add: record_call_def rows_with_id_without)
  have obj: "map_of (bucket ?w3) (file_path r) = None"
    by (simp add: record_call_def map_of_objects_without)
  have again: "\<exists>e. fst (loadFileData flt' fid now' ?w3) = LoadError e"
    using gone
    by (cases "lf_select flt'") (simp_all add: loadFileData_def db_select_single_def)
  show ?thesis
    using run gone obj again by simp
qed

text \<open>
  The scenario, 61 seconds after the upload: the download fails as expired and the
  object and the row are gone.
\<close>

theorem expired_download_deletes_and_fails_witness:
  "rows_with_id ''id-1'' (table after_upload) = [report_row]
   \<and> expires_at report_row < 61000
   \<and> fst (loadFileData no_load_faults ''id-1'' 61000 after_upload)
       = LoadError ''File has expired and been deleted''
   \<and> map_of (bucket (snd (loadFileData no_load_faults ''id-1'' 61000 after_upload)))
       ''uploads/id-1/report.pdf'' = None
   \<and> rows_with_id ''id-1'' (table (snd (loadFileData no_load_faults ''id-1'' 61000 after_upload)))
       = []"
proof -
  have a: "rows_with_id ''id-1'' (table after_upload) = [report_row]"
    by (simp add: after_upload_def report_row_def rows_with_id_def)
  have b: "expires_at report_row < 61000"
    by (simp add: report_row_def)
  have c: "file_path report_row = ''uploads/id-1/report.pdf''"
    by (simp add: report_row_def)
  show ?thesis
    using a b c
      expired_download_deletes_and_fails [OF a b, of no_load_faults no_load_faults 61000]
    by (simp add: no_load_faults_def)
qed

text \<open>
  C1 as stated fails at the instant of expiry itself: with the current time equal to
  \<open>expires_at\<close> the comparison \<^verbatim>\<open>expiresAt < new Date()\<close> is false, the record is
  loaded and nothing is deleted.
\<close>

theorem download_at_expiry_instant_not_expired:
  "expires_at report_row \<le> 60000
   \<and> loadFileData no_load_faults ''id-1'' 60000 after_upload
       = (Loaded report_row, record_call (DbSelectSingle ''id-1'' True) after_upload)"
  by (simp add: after_upload_def report_row_def no_load_faults_def loadFileData_def
      db_select_single_def rows_with_id_def record_call_def)

subsection \<open>Round trip\<close>

text \<open>
  C2. For every file with bytes \<open>content f\<close> and name \<open>name f\<close> whose upload succeeded,
  with whatever password setting \<open>P\<close> and in whatever time zone, loading the record no
  later than the expiry the upload stored for it and downloading it (with the password
  \<open>P\<close> if one was set, with any input otherwise) saves exactly those bytes under the
  original name.
\<close>

theorem upload_download_roundtrip:
  assumes up: "handleUpload digest z uflt origin (Some f) P ex fileId t0 w = (Uploaded link, w1)"
      and before: "t1 \<le> expires_at (upload_record digest z f P ex fileId t0)"
      and sel: "lf_select lflt = None"
      and pw: "P \<noteq> [] \<longrightarrow> pw = P"
  shows "\<exists>fd w2. loadFileData lflt fileId t1 w1 = (Loaded fd, w2)
           \<and> fst (handleDownload digest None (Some fd) pw w2) = Saved (name f) (content f)"
proof -
  let ?r = "upload_record digest z f P ex fileId t0"
  let ?w2 = "record_call (DbSelectSingle fileId True) w1"
  note st = stored_after_upload [OF up]
  have fresh: "\<not> expires_at ?r < t1"
    using before by simp
  have load: "loadFileData lflt fileId t1 w1 = (Loaded ?r, ?w2)"
    by (rule loadFileData_fresh [OF st(1) fresh sel])
  have obj: "map_of (bucket ?w2) (file_path ?r) = Some (content f)"
    using st(2) by (simp add: record_call_def upload_record_simps)
  have save: "fst (download_and_save None ?r ?w2) = Saved (name f) (content f)"
    using download_and_save_present [OF obj] by (simp add: upload_record_simps)
  have "fst (handleDownload digest None (Some ?r) pw ?w2) = Saved (name f) (content f)"
  proof (cases "P = []")
    case True
    then show ?thesis
      using save by (simp add: handleDownload_def upload_record_simps passwordHash_def)
  next
    case False
    with pw have "pw = P" by simp
    with False show ?thesis
      using save by (simp add: handleDownload_def upload_record_simps passwordHash_def)
  qed
  with load show ?thesis by blast
qed

text \<open>The scenario: the ten bytes come back as \<^verbatim>\<open>report.pdf\<close> with the password \<^verbatim>\<open>abc\<close>.\<close>

theorem upload_download_roundtrip_witness:
  "handleUpload sample_digest utc_zone no_upload_faults ''https://share.example'' (Some report_pdf)
     ''abc'' Minutes1 ''id-1'' 0 empty_backend
     = (Uploaded ''https://share.example/download/id-1'', after_upload)
   \<and> (\<exists>fd w2. loadFileData no_load_faults ''id-1'' 30000 after_upload = (Loaded fd, w2)
         \<and> fst (handleDownload sample_digest None (Some fd) ''abc'' w2)
             = Saved ''report.pdf'' [1, 2, 3, 4, 5, 6, 7, 8, 9, 10])"
proof -
  have sel: "lf_select no_load_faults = None"
    by (simp add: no_load_faults_def)
  have before: "30000 \<le> expires_at (upload_record sample_digest utc_zone report_pdf ''abc''
                                     Minutes1 ''id-1'' 0)"
    by (simp add: upload_record_simps setMinutes_utc)
  have pw: "''abc'' \<noteq> [] \<longrightarrow> ''abc'' = ''abc''"
    by simp
  have names: "name report_pdf = ''report.pdf''"
    "content report_pdf = [1, 2, 3, 4, 5, 6, 7, 8, 9, 10]"
    by (simp_all add: report_pdf_def)
  show ?thesis
    using upload_download_roundtrip [OF scenario_upload before sel pw] scenario_upload
    by (simp only: names simp_thms)
qed

subsection \<open>Lookup miss\<close>

text \<open>
  C8 says that a download request whose identifier matches no stored record fails with
  "not found". Evaluated on the empty table: \<^verbatim>\<open>.single()\<close> answers with its error, the
  flow throws it and the page shows the message of that error, not
  \<^verbatim>\<open>File not found\<close>.
\<close>

theorem lookup_miss_reports_upstream_error:
  "loadFileData no_load_faults ''id-1'' 0 empty_backend
     = (LoadError ''JSON object requested, multiple (or no) rows returned'',
        record_call (DbSelectSingle ''id-1'' False) empty_backend)
   \<and> fst (loadFileData no_load_faults ''id-1'' 0 empty_backend) \<noteq> LoadError ''File not found''"
  by (simp add: loadFileData_def db_select_single_def rows_with_id_def record_call_def
      single_row_error_def no_load_faults_def empty_backend_def)

subsection \<open>Password gate\<close>

text \<open>
  C3. For every record whose \<open>password_hash\<close> is set (a non-empty digest \<open>h\<close>, as
  every digest the upload stores is), the download flow requires a non-empty input
  password; an input whose hex digest differs from the stored one fails with
  "Incorrect Password" and leaves the bucket and the table as they were; the original
  upload password \<open>P\<close> (the one whose \<open>passwordHash\<close> is the stored digest) passes the
  comparison, and the flow goes on to fetch the bytes from the storage.
\<close>

theorem password_gate:
  assumes set: "password_hash fd = Some h" and nonempty: "h \<noteq> []"
  shows "handleDownload digest fault (Some fd) [] w = (PasswordRequired, w)
       \<and> (\<forall>pw. pw \<noteq> [] \<and> hashPassword digest pw \<noteq> h
             \<longrightarrow> handleDownload digest fault (Some fd) pw w = (IncorrectPassword, w))
       \<and> (\<forall>P. passwordHash digest P = Some h
             \<longrightarrow> handleDownload digest fault (Some fd) P w = download_and_save fault fd w
               \<and> calls (snd (handleDownload digest fault (Some fd) P w))
                   = calls w @ [StorageDownload (file_path fd)
                                  (fault = None \<and> map_of (bucket w) (file_path fd) \<noteq> None)])"
proof (intro conjI allI impI)
  show "handleDownload digest fault (Some fd) [] w = (PasswordRequired, w)"
    using set nonempty by (simp add: handleDownload_def)
next
  fix pw
  assume "pw \<noteq> [] \<and> hashPassword digest pw \<noteq> h"
  then show "handleDownload digest fault (Some fd) pw w = (IncorrectPassword, w)"
    using set nonempty by (simp add: handleDownload_def)
next
  fix P
  assume "passwordHash digest P = Some h"
  then have P: "P \<noteq> []" "hashPassword digest P = h"
    by (simp_all add: passwordHash_def split: if_splits)
  then show run: "handleDownload digest fault (Some fd) P w = download_and_save fault fd w"
    using set nonempty by (simp add: handleDownload_def)
  show "calls (snd (handleDownload digest fault (Some fd) P w))
          = calls w @ [StorageDownload (file_path fd)
                         (fault = None \<and> map_of (bucket w) (file_path fd) \<noteq> None)]"
    by (simp only: run download_and_save_calls)
qed

text \<open>
  The record of the scenario: no input is refused, \<^verbatim>\<open>xyz\<close> is incorrect, \<^verbatim>\<open>abc\<close>
  fetches the ten bytes.
\<close>

theorem password_gate_witness:
  "password_hash report_row = Some ''61626300'' \<and> ''61626300'' \<noteq> []
   \<and> handleDownload sample_digest None (Some report_row) [] after_upload
       = (PasswordRequired, after_upload)
   \<and> handleDownload sample_digest None (Some report_row) ''xyz'' after_upload
       = (IncorrectPassword, after_upload)
   \<and> handleDownload sample_digest None (Some report_row) ''abc'' after_upload
       = (Saved ''report.pdf'' [1, 2, 3, 4, 5, 6, 7, 8, 9, 10],
          record_call (StorageDownload ''uploads/id-1/report.pdf'' True) after_upload)"
proof -
  have a: "password_hash report_row = Some ''61626300''"
    by (simp add: report_row_def)
  have b: "''61626300'' \<noteq> []"
    by simp
  have wrong: "''xyz'' \<noteq> [] \<and> hashPassword sample_digest ''xyz'' \<noteq> ''61626300''"
    by (simp add: sample_hash_xyz)
  have right: "passwordHash sample_digest ''abc'' = Some ''61626300''"
    by (simp add: passwordHash_def sample_hash_abc)
  have fetch: "download_and_save None report_row after_upload
      = (Saved ''report.pdf'' [1, 2, 3, 4, 5, 6, 7, 8, 9, 10],
         record_call (StorageDownload ''uploads/id-1/report.pdf'' True) after_upload)"
    by (simp add: download_and_save_def storage_download_def report_row_def after_upload_def)
  note g = password_gate [OF a b, of sample_digest None after_upload]
  from g wrong right fetch a b show ?thesis
    by simp
qed

subsection \<open>Order of the upload\<close>

text \<open>
  C4. In every upload the metadata record is never written before the object bytes
  are stored under the computed key. The calls \<^verbatim>\<open>handleUpload\<close> makes are: none (no
  file selected); or the storage put alone, failed, with the table untouched and the
  failure reported; or the successful storage put followed by the insert of the record,
  the bytes being in the bucket under the key.
\<close>

theorem upload_calls_in_order:
  "(file = None \<and> snd (handleUpload digest z flt origin file password ex fileId now w) = w)
   \<or> (\<exists>f e. file = Some f
         \<and> fst (storage_upload (uf_upload flt) (upload_path fileId f) (content f) w) = Some e
         \<and> fst (handleUpload digest z flt origin file password ex fileId now w) = UploadFailed e
         \<and> calls (snd (handleUpload digest z flt origin file password ex fileId now w))
             = calls w @ [StorageUpload (upload_path fileId f) False]
         \<and> table (snd (handleUpload digest z flt origin file password ex fileId now w)) = table w)
   \<or> (\<exists>f ok. file = Some f
         \<and> fst (storage_upload (uf_upload flt) (upload_path fileId f) (content f) w) = None
         \<and> calls (snd (handleUpload digest z flt origin file password ex fileId now w))
             = calls w @ [StorageUpload (upload_path fileId f) True,
                          DbInsert (upload_record digest z f password ex fileId now) ok]
         \<and> map_of (bucket (snd (handleUpload digest z flt origin file password ex fileId now w)))
              (upload_path fileId f) = Some (content f))"
proof (cases "file")
  case None
  then show ?thesis by (simp add: handleUpload_def)
next
  case (Some f)
  show ?thesis
  proof (cases "fst (storage_upload (uf_upload flt) (upload_path fileId f) (content f) w)")
    case None
    then have put: "uf_upload flt = None" "map_of (bucket w) (upload_path fileId f) = None"
      by (auto simp: storage_upload_def split: option.splits)
    let ?w1 = "record_call (StorageUpload (upload_path fileId f) True)
                 (w\<lparr>bucket := bucket w @ [(upload_path fileId f, content f)]\<rparr>)"
    have su: "storage_upload (uf_upload flt) (upload_path fileId f) (content f) w = (None, ?w1)"
      using put by (simp add: storage_upload_def)
    have obj: "map_of (bucket ?w1) (upload_path fileId f) = Some (content f)"
      using map_of_append_new [OF put(2)] by (simp add: record_call_def)
    obtain dbe w2 where ins:
      "db_insert (uf_insert flt) (upload_record digest z f password ex fileId now) ?w1 = (dbe, w2)"
      by (cases "db_insert (uf_insert flt) (upload_record digest z f password ex fileId now) ?w1")
    have w2: "bucket w2 = bucket ?w1"
      "\<exists>ok. calls w2 = calls ?w1 @ [DbInsert (upload_record digest z f password ex fileId now) ok]"
      using ins
      by (auto simp: db_insert_def record_call_def split: option.splits list.splits)
    have run: "snd (handleUpload digest z flt origin file password ex fileId now w) = w2"
      using Some su ins by (simp add: handleUpload_def split: option.splits)
    have "calls ?w1 = calls w @ [StorageUpload (upload_path fileId f) True]"
      by (simp add: record_call_def)
    with w2 obj run Some None show ?thesis
      by auto
  next
    case (Some e)
    then obtain w1 where su:
      "storage_upload (uf_upload flt) (upload_path fileId f) (content f) w = (Some e, w1)"
      by (cases "storage_upload (uf_upload flt) (upload_path fileId f) (content f) w") simp
    then have w1: "w1 = record_call (StorageUpload (upload_path fileId f) False) w"
      by (auto simp: storage_upload_def split: option.splits)
    have "handleUpload digest z flt origin file password ex fileId now w = (UploadFailed e, w1)"
      using \<open>file = Some f\<close> su by (simp add: handleUpload_def)
    with w1 Some \<open>file = Some f\<close> show ?thesis
      by (simp add: record_call_def)
  qed
qed

text \<open>
  The scenario's upload makes the put, then the insert; with a failing put there is no
  insert.
\<close>

theorem upload_calls_in_order_witness:
  "calls (snd (handleUpload sample_digest utc_zone no_upload_faults ''https://share.example''
                 (Some report_pdf) ''abc'' Minutes1 ''id-1'' 0 empty_backend))
     = [StorageUpload ''uploads/id-1/report.pdf'' True, DbInsert report_row True]
   \<and> handleUpload sample_digest utc_zone upload_put_fails ''https://share.example''
        (Some report_pdf) ''abc'' Minutes1 ''id-1'' 0 empty_backend
     = (UploadFailed ''network error'',
        record_call (StorageUpload ''uploads/id-1/report.pdf'' False) empty_backend)"
proof -
  have fails: "handleUpload sample_digest utc_zone upload_put_fails ''https://share.example''
        (Some report_pdf) ''abc'' Minutes1 ''id-1'' 0 empty_backend
     = (UploadFailed ''network error'',
        record_call (StorageUpload ''uploads/id-1/report.pdf'' False) empty_backend)"
    by (simp add: handleUpload_def storage_upload_def upload_put_fails_def upload_path_def
        report_pdf_def)
  show ?thesis
    using upload_calls_in_order [of "Some report_pdf" sample_digest utc_zone no_upload_faults
        "''https://share.example''" "''abc''" Minutes1 "''id-1''" 0 empty_backend]
      fails
    by (simp add: scenario_upload after_upload_def)
qed

subsection \<open>Uploads without a password\<close>

text \<open>
  C7. For every successful upload made with no password (the password state is the
  empty string), the stored record's \<open>password_hash\<close> is null, the page shows no
  password field for it and a download of it never answers "Password Required" or
  "Incorrect Password", whatever is typed.
\<close>

theorem no_password_upload_is_ungated:
  assumes up: "handleUpload digest z flt origin (Some f) [] ex fileId t0 w = (Uploaded link, w1)"
  shows "\<exists>row. rows_with_id fileId (table w1) = [row] \<and> password_hash row = None
           \<and> \<not> password_field_shown (Some row)
           \<and> (\<forall>pw fault w2.
                 fst (handleDownload digest fault (Some row) pw w2) \<noteq> PasswordRequired
               \<and> fst (handleDownload digest fault (Some row) pw w2) \<noteq> IncorrectPassword)"
proof -
  let ?row = "upload_record digest z f [] ex fileId t0"
  have hash: "password_hash ?row = None"
    by (simp add: upload_record_simps passwordHash_def)
  have "fst (handleDownload digest fault (Some ?row) pw w2) \<noteq> PasswordRequired
      \<and> fst (handleDownload digest fault (Some ?row) pw w2) \<noteq> IncorrectPassword"
    for pw fault w2
    by (simp add: handleDownload_def hash download_and_save_def split: prod.splits option.splits)
  with stored_after_upload(1) [OF up] hash show ?thesis
    by (auto simp: password_field_shown_def)
qed

text \<open>
  The upload of \<^verbatim>\<open>notes.txt\<close> with no password.
\<close>

theorem no_password_upload_is_ungated_witness:
  "handleUpload sample_digest utc_zone no_upload_faults ''https://share.example'' (Some notes_txt)
     [] Minutes1 ''id-2'' 500 after_upload
     = (Uploaded ''https://share.example/download/id-2'', two_files)
   \<and> (\<exists>row. rows_with_id ''id-2'' (table two_files) = [row] \<and> password_hash row = None
         \<and> \<not> password_field_shown (Some row)
         \<and> (\<forall>pw fault w2.
               fst (handleDownload sample_digest fault (Some row) pw w2) \<noteq> PasswordRequired
             \<and> fst (handleDownload sample_digest fault (Some row) pw w2) \<noteq> IncorrectPassword))"
  using no_password_upload_is_ungated [OF scenario_upload_notes] scenario_upload_notes
  by (simp only: simp_thms)

text \<open>
  C9. An empty password input gives the record a null \<open>password_hash\<close>, not the digest
  of the empty string, and a download of that record goes straight to fetching the
  bytes, whatever password is typed.
\<close>

theorem empty_password_stores_null_hash:
  "passwordHash digest [] = None
   \<and> passwordHash digest [] \<noteq> Some (hashPassword digest [])
   \<and> password_hash (upload_record digest z f [] ex fileId now) = None
   \<and> handleDownload digest fault (Some (upload_record digest z f [] ex fileId now)) pw w
       = download_and_save fault (upload_record digest z f [] ex fileId now) w"
  by (simp add: passwordHash_def upload_record_def handleDownload_def)

subsection \<open>Expiry sweep\<close>

text \<open>
  C5. For every sweep invocation (a request other than the preflight, the client
  created and the select answered), the job selects all records with \<open>expires_at\<close>
  strictly before the current time. When none matches it reports the empty-result
  message. Otherwise it calls the batch storage removal and then the metadata deletion,
  also when the removal failed: the failure is only written to the console and the
  bucket is left as it was. When the deletion succeeds the table keeps the records not
  expired before the second instant, the report is the count of the selected records,
  and (the clock not going back) no selected record is left.
\<close>

theorem sweep_selects_removes_reports:
  assumes m: "method \<noteq> ''OPTIONS''" and c: "sf_client flt = None" and s: "sf_select flt = None"
  shows "(rows_expired_before now1 (table w) = []
            \<longrightarrow> sweep flt method now1 now2 w
                  = ((\<lparr>status = 200, body = NoExpiredFiles\<rparr>, []),
                     record_call (DbSelectExpired now1 True) w))
       \<and> (rows_expired_before now1 (table w) \<noteq> []
            \<longrightarrow> calls (snd (sweep flt method now1 now2 w))
                  = calls w @ [DbSelectExpired now1 True,
                       StorageRemove (map file_path (rows_expired_before now1 (table w)))
                         (sf_remove flt = None),
                       DbDeleteExpired now2 (sf_delete flt = None)]
              \<and> snd (fst (sweep flt method now1 now2 w))
                  = (case sf_remove flt of Some e \<Rightarrow> [''Storage deletion error: '' @ e]
                     | None \<Rightarrow> [])
              \<and> bucket (snd (sweep flt method now1 now2 w))
                  = (case sf_remove flt of Some e \<Rightarrow> bucket w
                     | None \<Rightarrow> objects_without
                         (map file_path (rows_expired_before now1 (table w))) (bucket w))
              \<and> (sf_delete flt = None
                    \<longrightarrow> table (snd (sweep flt method now1 now2 w))
                          = rows_not_expired_before now2 (table w)
                      \<and> fst (fst (sweep flt method now1 now2 w))
                          = \<lparr>status = 200,
                             body = DeletedCount (length (rows_expired_before now1 (table w)))\<rparr>
                      \<and> (now1 \<le> now2
                            \<longrightarrow> rows_expired_before now1 (table (snd (sweep flt method now1 now2 w)))
                                  = [])))"
proof (intro conjI impI)
  assume "rows_expired_before now1 (table w) = []"
  then show "sweep flt method now1 now2 w
      = ((\<lparr>status = 200, body = NoExpiredFiles\<rparr>, []), record_call (DbSelectExpired now1 True) w)"
    by (rule sweep_nothing_expired [OF m c s])
next
  assume ne: "rows_expired_before now1 (table w) \<noteq> []"
  note run = sweep_some_expired [OF m c s ne, of now2]
  show "calls (snd (sweep flt method now1 now2 w))
      = calls w @ [DbSelectExpired now1 True,
           StorageRemove (map file_path (rows_expired_before now1 (table w))) (sf_remove flt = None),
           DbDeleteExpired now2 (sf_delete flt = None)]"
    by (cases "sf_delete flt")
       (simp_all add: run storage_remove_effect db_delete_expired_effect record_call_def)
  show "snd (fst (sweep flt method now1 now2 w))
      = (case sf_remove flt of Some e \<Rightarrow> [''Storage deletion error: '' @ e] | None \<Rightarrow> [])"
    by (cases "sf_delete flt")
       (simp_all add: run storage_remove_effect db_delete_expired_effect sweep_console_def)
  show "bucket (snd (sweep flt method now1 now2 w))
      = (case sf_remove flt of Some e \<Rightarrow> bucket w
         | None \<Rightarrow> objects_without (map file_path (rows_expired_before now1 (table w))) (bucket w))"
    by (cases "sf_delete flt"; cases "sf_remove flt")
       (simp_all add: run storage_remove_effect db_delete_expired_effect record_call_def)
next
  assume ne: "rows_expired_before now1 (table w) \<noteq> []" and d: "sf_delete flt = None"
  note run = sweep_some_expired [OF m c s ne, of now2]
  show tab: "table (snd (sweep flt method now1 now2 w)) = rows_not_expired_before now2 (table w)"
    by (simp add: run d storage_remove_effect db_delete_expired_effect record_call_def)
  show "fst (fst (sweep flt method now1 now2 w))
      = \<lparr>status = 200, body = DeletedCount (length (rows_expired_before now1 (table w)))\<rparr>"
    by (simp add: run d storage_remove_effect db_delete_expired_effect)
  assume "now1 \<le> now2"
  then show "rows_expired_before now1 (table (snd (sweep flt method now1 now2 w))) = []"
    by (simp only: tab expired_before_not_expired)
qed

text \<open>
  Both files expired and the storage removal failing: the failure is logged, both rows
  are deleted, the count is 2.
\<close>

theorem sweep_selects_removes_reports_witness:
  "''POST'' \<noteq> ''OPTIONS'' \<and> sf_client storage_down = None \<and> sf_select storage_down = None
   \<and> rows_expired_before 61000 (table two_files) = [report_row, notes_row]
   \<and> fst (sweep storage_down ''POST'' 61000 61000 two_files)
       = (\<lparr>status = 200, body = DeletedCount 2\<rparr>,
          [''Storage deletion error: storage unavailable''])
   \<and> table (snd (sweep storage_down ''POST'' 61000 61000 two_files)) = []
   \<and> bucket (snd (sweep storage_down ''POST'' 61000 61000 two_files)) = bucket two_files
   \<and> calls (snd (sweep storage_down ''POST'' 61000 61000 two_files))
       = calls two_files @ [DbSelectExpired 61000 True,
           StorageRemove [''uploads/id-1/report.pdf'', ''uploads/id-2/notes.txt''] False,
           DbDeleteExpired 61000 True]"
proof -
  have m: "''POST'' \<noteq> ''OPTIONS''" by simp
  have c: "sf_client storage_down = None" and s: "sf_select storage_down = None"
    by (simp_all add: storage_down_def)
  have f: "sf_remove storage_down = Some ''storage unavailable''" "sf_delete storage_down = None"
    by (simp_all add: storage_down_def)
  have left: "rows_not_expired_before 61000 (table two_files) = []"
    by (simp add: rows_not_expired_before_def two_files_def report_row_def notes_row_def)
  have paths: "file_path report_row = ''uploads/id-1/report.pdf''"
    "file_path notes_row = ''uploads/id-2/notes.txt''"
    by (simp_all add: report_row_def notes_row_def)
  note t = sweep_selects_removes_reports [OF m c s, of 61000 two_files 61000]
  have resp: "fst (sweep storage_down ''POST'' 61000 61000 two_files)
       = (\<lparr>status = 200, body = DeletedCount 2\<rparr>,
          [''Storage deletion error: storage unavailable''])"
    using t by (simp add: two_files_expired_61000 f prod_eq_iff)
  show ?thesis
    using t resp m c s
    by (simp add: two_files_expired_61000 f left paths)
qed

text \<open>
  C6. For any state, a sweep that is answered (select and delete succeeding) leaves no
  record expired at its instant, and a following sweep, no record having expired in
  between, reports the empty-result message and changes nothing.
\<close>

theorem sweep_twice_second_reports_nothing:
  assumes m1: "method \<noteq> ''OPTIONS''" and m2: "method' \<noteq> ''OPTIONS''"
      and c1: "sf_client flt = None" and s1: "sf_select flt = None"
      and d1: "sf_delete flt = None"
      and c2: "sf_client flt' = None" and s2: "sf_select flt' = None"
      and mono: "now1 \<le> now2"
      and quiet: "\<forall>r \<in> set (table w). \<not> (now1 \<le> expires_at r \<and> expires_at r < now3)"
  shows "rows_expired_before now1 (table (snd (sweep flt method now1 now2 w))) = []
       \<and> sweep flt' method' now3 now4 (snd (sweep flt method now1 now2 w))
           = ((\<lparr>status = 200, body = NoExpiredFiles\<rparr>, []),
              record_call (DbSelectExpired now3 True) (snd (sweep flt method now1 now2 w)))"
proof -
  let ?w1 = "snd (sweep flt method now1 now2 w)"
  have first: "rows_expired_before now1 (table ?w1) = []
             \<and> rows_expired_before now3 (table ?w1) = []"
  proof (cases "rows_expired_before now1 (table w) = []")
    case True
    have "table ?w1 = table w"
      by (simp add: sweep_nothing_expired [OF m1 c1 s1 True] record_call_def)
    with True none_expired_later [OF quiet True] show ?thesis by simp
  next
    case False
    have "table ?w1 = rows_not_expired_before now2 (table w)"
      by (simp add: sweep_some_expired [OF m1 c1 s1 False] d1 storage_remove_effect
          db_delete_expired_effect record_call_def)
    with expired_before_not_expired [OF mono] not_expired_later [OF quiet mono]
    show ?thesis by simp
  qed
  then have "rows_expired_before now3 (table ?w1) = []" by simp
  from sweep_nothing_expired [OF m2 c2 s2 this] first show ?thesis by simp
qed

text \<open>
  Two sweeps in a row over the two expired files.
\<close>

theorem sweep_twice_second_reports_nothing_witness:
  "rows_expired_before 61000 (table (snd (sweep no_sweep_faults ''POST'' 61000 61001 two_files)))
     = []
   \<and> fst (sweep no_sweep_faults ''POST'' 61002 61003
            (snd (sweep no_sweep_faults ''POST'' 61000 61001 two_files)))
       = (\<lparr>status = 200, body = NoExpiredFiles\<rparr>, [])"
proof -
  have m: "''POST'' \<noteq> ''OPTIONS''" by simp
  have f: "sf_client no_sweep_faults = None" "sf_select no_sweep_faults = None"
    "sf_delete no_sweep_faults = None"
    by (simp_all add: no_sweep_faults_def)
  have mono: "(61000::int) \<le> 61001" by simp
  have quiet: "\<forall>r \<in> set (table two_files). \<not> (61000 \<le> expires_at r \<and> expires_at r < 61002)"
    by (simp add: two_files_def report_row_def notes_row_def)
  show ?thesis
    using sweep_twice_second_reports_nothing [OF m m f(1) f(2) f(3) f(1) f(2) mono quiet,
        of 61003]
    by simp
qed

text \<open>
  C10. For every sweep run that finds \<open>n > 0\<close> expired records and whose deletion
  succeeds, the reported \<open>deletedCount\<close> is \<open>n\<close>, the size of the first query's result,
  whether the storage removal succeeded or not (\<open>storageFault\<close>) and whatever the
  second instant \<open>t2\<close> is, while the deletion removes the rows expired before \<open>t2\<close>.
\<close>

theorem sweep_count_is_initial_selection:
  assumes m: "method \<noteq> ''OPTIONS''"
      and c: "sf_client flt = None" and s: "sf_select flt = None" and d: "sf_delete flt = None"
      and ne: "rows_expired_before now1 (table w) \<noteq> []"
  shows "\<forall>storageFault t2.
           body (fst (fst (sweep (flt\<lparr>sf_remove := storageFault\<rparr>) method now1 t2 w)))
             = DeletedCount (length (rows_expired_before now1 (table w)))
         \<and> length (table (snd (sweep (flt\<lparr>sf_remove := storageFault\<rparr>) method now1 t2 w)))
             + length (rows_expired_before t2 (table w)) = length (table w)"
proof (intro allI)
  fix storageFault t2
  let ?flt = "flt\<lparr>sf_remove := storageFault\<rparr>"
  have c': "sf_client ?flt = None" and s': "sf_select ?flt = None" and d': "sf_delete ?flt = None"
    using c s d by simp_all
  note run = sweep_some_expired [OF m c' s' ne, of t2]
  have resp: "body (fst (fst (sweep ?flt method now1 t2 w)))
                = DeletedCount (length (rows_expired_before now1 (table w)))"
    using d by (simp add: run storage_remove_effect db_delete_expired_effect)
  have tab: "table (snd (sweep ?flt method now1 t2 w)) = rows_not_expired_before t2 (table w)"
    using d by (simp add: run storage_remove_effect db_delete_expired_effect record_call_def)
  show "body (fst (fst (sweep ?flt method now1 t2 w)))
             = DeletedCount (length (rows_expired_before now1 (table w)))
         \<and> length (table (snd (sweep ?flt method now1 t2 w)))
             + length (rows_expired_before t2 (table w)) = length (table w)"
    by (simp only: resp tab length_not_expired)
qed

text \<open>
  One record expired at the select, two at the delete, the storage removal failing:
  the count reported is 1 and the table is empty.
\<close>

theorem sweep_count_is_initial_selection_witness:
  "rows_expired_before 60100 (table two_files) = [report_row]
   \<and> body (fst (fst (sweep (no_sweep_faults\<lparr>sf_remove := Some ''storage unavailable''\<rparr>)
                        ''POST'' 60100 60600 two_files))) = DeletedCount 1
   \<and> table (snd (sweep (no_sweep_faults\<lparr>sf_remove := Some ''storage unavailable''\<rparr>)
                   ''POST'' 60100 60600 two_files)) = []"
proof -
  have m: "''POST'' \<noteq> ''OPTIONS''" by simp
  have f: "sf_client no_sweep_faults = None" "sf_select no_sweep_faults = None"
    "sf_delete no_sweep_faults = None"
    by (simp_all add: no_sweep_faults_def)
  have sel: "rows_expired_before 60100 (table two_files) = [report_row]"
    by (simp add: rows_expired_before_def two_files_def report_row_def notes_row_def)
  have ne: "rows_expired_before 60100 (table two_files) \<noteq> []"
    by (simp add: sel)
  have later: "length (rows_expired_before 60600 (table two_files)) = 2"
    "length (table two_files) = 2"
    by (simp_all add: rows_expired_before_def two_files_def report_row_def notes_row_def)
  show ?thesis
    using sweep_count_is_initial_selection [OF m f ne, THEN spec, THEN spec,
        of "Some ''storage unavailable''" 60600]
    by (simp add: sel later)
qed

end
